theory Spec2Isabelle
  imports Main
begin

section \<open>JavaScript values reaching the handlers\<close>

text \<open>
  The handlers of \<^verbatim>\<open>server.js\<close> receive the route parameter \<^verbatim>\<open>req.params.id\<close> (a string)
  and the properties \<^verbatim>\<open>status\<close> and \<^verbatim>\<open>priority\<close> of the body that \<^verbatim>\<open>express.json()\<close> parsed.
  The body is taken to be an object, as the parser leaves it for a JSON object. A property
  is a JSON value or \<^verbatim>\<open>undefined\<close> (absent); \<open>None\<close> stands for \<^verbatim>\<open>undefined\<close>.

  Strings are lists of code units below 256. A finite number is kept as the decimal that
  \<^verbatim>\<open>Number::toString\<close> selects for it: a sign, the digits \<open>s\<close> (a natural number with \<open>k\<close>
  decimal digits) and the exponent \<open>n\<close>, the value being \<open>s * 10 ^ (n - k)\<close>; zero has
  \<open>s = 0\<close>.

  A number that \<^verbatim>\<open>parseInt\<close> returns is \<^verbatim>\<open>NaN\<close>, an integer that a double holds, or an
  infinity; \<^verbatim>\<open>-0\<close> is \<open>0\<close>.
\<close>

datatype json =
    JNull
  | JBool bool
  | JNum bool nat int
  | JStr string
  | JArr "json list"
  | JObj "(string \<times> json) list"

type_synonym jsval = "json option"

datatype jsnumber = NaN | Finite int | PosInfinity | NegInfinity

datatype js_error = TypeError

text \<open>\<^verbatim>\<open>ToBoolean\<close>: what \<^verbatim>\<open>if (status)\<close> tests.\<close>

fun truthy :: "jsval \<Rightarrow> bool" where
  "truthy None = False"
| "truthy (Some JNull) = False"
| "truthy (Some (JBool b)) = b"
| "truthy (Some (JNum neg s n)) = (s \<noteq> 0)"
| "truthy (Some (JStr s)) = (s \<noteq> [])"
| "truthy (Some (JArr xs)) = True"
| "truthy (Some (JObj kvs)) = True"

text \<open>\<^verbatim>\<open>Array.prototype.includes\<close> on an array of strings: only an equal string is found.\<close>

fun includes_js :: "string list \<Rightarrow> jsval \<Rightarrow> bool" where
  "includes_js xs (Some (JStr s)) = (s \<in> set xs)"
| "includes_js xs v = False"

subsection \<open>\<^verbatim>\<open>ToString\<close>\<close>

definition digit_char :: "nat \<Rightarrow> char" where
  "digit_char d = char_of (48 + d)"

fun digits10 :: "nat \<Rightarrow> string" where
  "digits10 n = (if n < 10 then [digit_char n] else digits10 (n div 10) @ [digit_char (n mod 10)])"

definition positive_to_string :: "nat \<Rightarrow> int \<Rightarrow> string" where
  "positive_to_string s n =
     (let ds = digits10 s; k = int (length ds) in
      if - 5 \<le> n \<and> n \<le> 21 then
        (if k \<le> n then ds @ replicate (nat (n - k)) (CHR ''0'')
         else if 0 < n then take (nat n) ds @ ''.'' @ drop (nat n) ds
         else ''0.'' @ replicate (nat (- n)) (CHR ''0'') @ ds)
      else
        (let e = n - 1;
             sgn = (if e < 0 then ''-'' else ''+'');
             es = digits10 (nat \<bar>e\<bar>) in
         if k = 1 then ds @ ''e'' @ sgn @ es
         else take 1 ds @ ''.'' @ drop 1 ds @ ''e'' @ sgn @ es))"

definition number_to_string :: "bool \<Rightarrow> nat \<Rightarrow> int \<Rightarrow> string" where
  "number_to_string neg s n =
     (if s = 0 then ''0''
      else (if neg then ''-'' else '''') @ positive_to_string s n)"

text \<open>
  \<^verbatim>\<open>ToString\<close> of a parsed JSON value. An array is joined with commas, \<^verbatim>\<open>null\<close> elements
  giving the empty string. An object has no callable \<^verbatim>\<open>toString\<close> of its own, so one with an
  own property of that name cannot be converted (\<^verbatim>\<open>TypeError\<close>); any other object gives
  \<^verbatim>\<open>[object Object]\<close>.
\<close>

fun to_string :: "json \<Rightarrow> js_error + string"
  and join_elems :: "json list \<Rightarrow> js_error + string" where
  "to_string JNull = Inr ''null''"
| "to_string (JBool b) = Inr (if b then ''true'' else ''false'')"
| "to_string (JNum neg s n) = Inr (number_to_string neg s n)"
| "to_string (JStr s) = Inr s"
| "to_string (JArr xs) = join_elems xs"
| "to_string (JObj kvs) =
     (if ''toString'' \<in> set (map fst kvs) then Inl TypeError else Inr ''[object Object]'')"
| "join_elems [] = Inr []"
| "join_elems (x # xs) =
     (case (if x = JNull then Inr [] else to_string x) of
        Inl e \<Rightarrow> Inl e
      | Inr s \<Rightarrow>
          (if xs = [] then Inr s
           else (case join_elems xs of
                   Inl e \<Rightarrow> Inl e
                 | Inr t \<Rightarrow> Inr (s @ '','' @ t))))"

subsection \<open>\<^verbatim>\<open>parseInt\<close>\<close>

definition is_white_space :: "char \<Rightarrow> bool" where
  "is_white_space c = (of_char c \<in> {9, 10, 11, 12, 13, 32, 160 :: nat})"

definition digit_value :: "char \<Rightarrow> nat" where
  "digit_value c =
     (let u = (of_char c :: nat) in
      if 48 \<le> u \<and> u \<le> 57 then u - 48
      else if 97 \<le> u \<and> u \<le> 122 then u - 87
      else if 65 \<le> u \<and> u \<le> 90 then u - 55
      else 36)"

definition is_radix_digit :: "nat \<Rightarrow> char \<Rightarrow> bool" where
  "is_radix_digit R c = (digit_value c < R)"

definition radix_value :: "nat \<Rightarrow> string \<Rightarrow> int" where
  "radix_value R Z = foldl (\<lambda>acc c. acc * int R + int (digit_value c)) 0 Z"

text \<open>
  The number value of an integer: the nearest double, ties to the even significand of 53
  bits, and an infinity from \<open>2 ^ 1024\<close> on; \<open>bit_length\<close> counts the binary digits.
\<close>

function bit_length :: "int \<Rightarrow> nat" where
  "bit_length x = (if x \<le> 0 then 0 else Suc (bit_length (x div 2)))"
  by pat_completeness auto
termination
  by (relation "measure nat") auto

definition round_to_double :: "int \<Rightarrow> int" where
  "round_to_double x =
     (if x < 2 ^ 53 then x
      else
        (let e = bit_length x - 53;
             q = x div 2 ^ e;
             r = x mod 2 ^ e;
             q' = (if 2 ^ e < 2 * r \<or> (2 * r = 2 ^ e \<and> odd q) then q + 1 else q)
         in q' * 2 ^ e))"

definition to_double :: "int \<Rightarrow> jsnumber" where
  "to_double x =
     (let m = round_to_double \<bar>x\<bar> in
      if 2 ^ 1024 \<le> m then (if x < 0 then NegInfinity else PosInfinity)
      else Finite (if x < 0 then - m else m))"

text \<open>
  \<^verbatim>\<open>parseInt(string, radix)\<close> on a string; radix \<open>0\<close> stands for a call without radix.
  Leading white space and one sign are dropped, a \<^verbatim>\<open>0x\<close> prefix selects radix 16 when the
  radix is absent or 16, and the longest prefix of digits is read; no digit gives \<^verbatim>\<open>NaN\<close>.
  The result is the number value of the signed integer the digits denote.
\<close>

definition parseInt :: "string \<Rightarrow> nat \<Rightarrow> jsnumber" where
  "parseInt inputString radix =
     (let S = dropWhile is_white_space inputString;
          sign = (case S of c # cs \<Rightarrow> (if c = CHR ''-'' then - 1 else 1) | [] \<Rightarrow> (1 :: int));
          S1 = (case S of c # cs \<Rightarrow> (if c = CHR ''+'' \<or> c = CHR ''-'' then cs else S) | [] \<Rightarrow> S) in
      if radix \<noteq> 0 \<and> (radix < 2 \<or> 36 < radix) then NaN
      else
        (let stripPrefix = (radix = 0 \<or> radix = 16);
             hex = (stripPrefix \<and> (take 2 S1 = ''0x'' \<or> take 2 S1 = ''0X''));
             S2 = (if hex then drop 2 S1 else S1);
             R = (if hex then 16 else if radix = 0 then 10 else radix);
             Z = takeWhile (is_radix_digit R) S2 in
         if Z = [] then NaN else to_double (sign * radix_value R Z)))"

text \<open>\<^verbatim>\<open>parseInt(priority)\<close> on a body property: \<^verbatim>\<open>ToString\<close> first, which may throw.\<close>

definition parseInt_json :: "json \<Rightarrow> js_error + jsnumber" where
  "parseInt_json v = (case to_string v of Inl e \<Rightarrow> Inl e | Inr s \<Rightarrow> Inr (parseInt s 0))"

section \<open>The record store\<close>

text \<open>
  A row of the table \<^verbatim>\<open>clients\<close>. The handlers read the column \<^verbatim>\<open>id\<close> and write the columns
  \<^verbatim>\<open>status\<close> and \<^verbatim>\<open>priority\<close>; the table's remaining columns (its schema is not part of the
  source) are carried as one value of any type. The identifier is an integer; the priority
  is the number that was bound to the placeholder when the column was written.
\<close>

record 'p client =
  id_col :: int
  status_col :: string
  priority_col :: jsnumber
  other_cols :: 'p

text \<open>
  The database: the rows of the table, in the order \<^verbatim>\<open>SELECT *\<close> returns them, and what the
  driver will report for each coming call (\<open>Some msg\<close>: the call fails with \<^verbatim>\<open>err.message = msg\<close>;
  \<open>None\<close>, or an exhausted list: the call succeeds). A failed call leaves the rows as they are.
  One request is handled to its end before the next one starts.
\<close>

record 'p db =
  rows :: "'p client list"
  faults :: "string option list"

definition next_fault :: "'p db \<Rightarrow> string option" where
  "next_fault d = (case faults d of [] \<Rightarrow> None | f # fs \<Rightarrow> f)"

definition db_call :: "'p db \<Rightarrow> string option \<times> 'p db" where
  "db_call d = (next_fault d, d\<lparr>faults := tl (faults d)\<rparr>)"

text \<open>\<^verbatim>\<open>db.get('SELECT * FROM clients WHERE id = ?', [id], ...)\<close>: the first matching row.\<close>

definition db_get_by_id :: "'p db \<Rightarrow> jsnumber \<Rightarrow> (string + 'p client option) \<times> 'p db" where
  "db_get_by_id d i =
     (case db_call d of
        (Some msg, d') \<Rightarrow> (Inl msg, d')
      | (None, d') \<Rightarrow> (Inr (find (\<lambda>c. Finite (id_col c) = i) (rows d')), d'))"

text \<open>\<^verbatim>\<open>db.all('SELECT * FROM clients', [], ...)\<close>.\<close>

definition db_all :: "'p db \<Rightarrow> (string + 'p client list) \<times> 'p db" where
  "db_all d =
     (case db_call d of
        (Some msg, d') \<Rightarrow> (Inl msg, d')
      | (None, d') \<Rightarrow> (Inr (rows d'), d'))"

text \<open>\<^verbatim>\<open>db.all('SELECT * FROM clients WHERE status = ?', [status], ...)\<close>.\<close>

definition db_all_by_status :: "'p db \<Rightarrow> string \<Rightarrow> (string + 'p client list) \<times> 'p db" where
  "db_all_by_status d s =
     (case db_call d of
        (Some msg, d') \<Rightarrow> (Inl msg, d')
      | (None, d') \<Rightarrow> (Inr (filter (\<lambda>c. status_col c = s) (rows d')), d'))"

text \<open>
  One element of \<^verbatim>\<open>updates\<close> together with its element of \<^verbatim>\<open>params\<close>:
  \<^verbatim>\<open>'status = ?'\<close> and \<^verbatim>\<open>'priority = ?'\<close> with the value bound to the placeholder.
\<close>

datatype assignment = Status_eq string | Priority_eq jsnumber

fun assign :: "assignment \<Rightarrow> 'p client \<Rightarrow> 'p client" where
  "assign (Status_eq s) c = c\<lparr>status_col := s\<rparr>"
| "assign (Priority_eq p) c = c\<lparr>priority_col := p\<rparr>"

definition update_rows :: "assignment list \<Rightarrow> jsnumber \<Rightarrow> 'p client list \<Rightarrow> 'p client list" where
  "update_rows updates i rs =
     map (\<lambda>c. if Finite (id_col c) = i then fold assign updates c else c) rs"

text \<open>\<^verbatim>\<open>db.run(`UPDATE clients SET ${updates.join(', ')} WHERE id = ?`, params, ...)\<close>.\<close>

definition db_run_update :: "'p db \<Rightarrow> assignment list \<Rightarrow> jsnumber \<Rightarrow> (string + unit) \<times> 'p db" where
  "db_run_update d updates i =
     (case db_call d of
        (Some msg, d') \<Rightarrow> (Inl msg, d')
      | (None, d') \<Rightarrow> (Inr (), d'\<lparr>rows := update_rows updates i (rows d')\<rparr>))"

section \<open>Responses\<close>

record messageObj =
  message :: string
  long_message :: "string option"

datatype 'p body =
    Message messageObj
  | Rows "'p client list"
  | Row "'p client option"

text \<open>
  What a handler does with the request: \<^verbatim>\<open>res.status(code).send(body)\<close>, or an exception
  that escapes it with no response sent.
\<close>

datatype 'p outcome = Send nat "'p body" | Throw js_error

datatype validation = Valid | Invalid messageObj

definition valid_statuses :: "string list" where
  "valid_statuses = [''backlog'', ''in-progress'', ''complete'']"

section \<open>Validators\<close>

definition id_not_integer :: messageObj where
  "id_not_integer =
     \<lparr>message = ''Invalid id provided.'', long_message = Some ''Id can only be integer.''\<rparr>"

definition id_not_found :: messageObj where
  "id_not_found =
     \<lparr>message = ''Invalid id provided.'',
      long_message = Some ''Cannot find client with that id.''\<rparr>"

definition db_error :: "string \<Rightarrow> messageObj" where
  "db_error msg = \<lparr>message = ''DB error.'', long_message = Some msg\<rparr>"

definition invalid_priority :: messageObj where
  "invalid_priority =
     \<lparr>message = ''Invalid priority provided.'',
      long_message = Some ''Priority can only be positive integer.''\<rparr>"

text \<open>\<^verbatim>\<open>Number.isNaN(id)\<close>, then the lookup of the row.\<close>

definition validateId :: "'p db \<Rightarrow> jsnumber \<Rightarrow> validation \<times> 'p db" where
  "validateId d i =
     (if i = NaN then (Invalid id_not_integer, d)
      else
        (case db_get_by_id d i of
           (Inl msg, d') \<Rightarrow> (Invalid (db_error msg), d')
         | (Inr None, d') \<Rightarrow> (Invalid id_not_found, d')
         | (Inr (Some row), d') \<Rightarrow> (Valid, d')))"

text \<open>\<^verbatim>\<open>priority < 1\<close>: false for \<^verbatim>\<open>NaN\<close>.\<close>

fun less_than_one :: "jsnumber \<Rightarrow> bool" where
  "less_than_one NaN = False"
| "less_than_one (Finite n) = (n < 1)"
| "less_than_one PosInfinity = False"
| "less_than_one NegInfinity = True"

text \<open>\<^verbatim>\<open>Number.isNaN(priority) || priority < 1\<close>.\<close>

definition validatePriority :: "jsnumber \<Rightarrow> validation" where
  "validatePriority pr =
     (if pr = NaN \<or> less_than_one pr then Invalid invalid_priority else Valid)"

section \<open>Handlers\<close>

text \<open>The body of a \<^verbatim>\<open>PUT\<close> request as \<^verbatim>\<open>let { status, priority } = req.body\<close> reads it.\<close>

record req_body =
  status :: jsval
  priority :: jsval

text \<open>The string bound to a placeholder; a value that passed \<^verbatim>\<open>includes\<close> is a string.\<close>

fun string_param :: "jsval \<Rightarrow> string" where
  "string_param (Some (JStr s)) = s"
| "string_param v = []"

definition invalid_status_list :: messageObj where
  "invalid_status_list =
     \<lparr>message = ''Invalid status provided.'',
      long_message =
        Some ''Status can only be one of the following: [backlog | in-progress | complete].''\<rparr>"

text \<open>\<^verbatim>\<open>app.get('/api/v1/clients')\<close>, with \<^verbatim>\<open>req.query.status\<close>.\<close>

definition get_clients :: "'p db \<Rightarrow> jsval \<Rightarrow> 'p outcome \<times> 'p db" where
  "get_clients d st =
     (if truthy st \<and> \<not> includes_js valid_statuses st then
        (Send 400 (Message invalid_status_list), d)
      else
        (case (if truthy st then db_all_by_status d (string_param st) else db_all d) of
           (Inl msg, d') \<Rightarrow>
             (Send 500 (Message (db_error msg)), d')
         | (Inr rs, d') \<Rightarrow> (Send 200 (Rows rs), d')))"

text \<open>\<^verbatim>\<open>app.get('/api/v1/clients/:id')\<close>, with \<^verbatim>\<open>req.params.id\<close>.\<close>

definition get_client :: "'p db \<Rightarrow> string \<Rightarrow> 'p outcome \<times> 'p db" where
  "get_client d raw =
     (let i = parseInt raw 10 in
      case validateId d i of
        (Invalid m, d1) \<Rightarrow> (Send 400 (Message m), d1)
      | (Valid, d1) \<Rightarrow>
          (case db_get_by_id d1 i of
             (Inl msg, d2) \<Rightarrow> (Send 500 (Message (db_error msg)), d2)
           | (Inr row, d2) \<Rightarrow> (Send 200 (Row row), d2)))"

definition invalid_status :: messageObj where
  "invalid_status =
     \<lparr>message = ''Invalid status provided.'',
      long_message = Some ''Status must be one of: backlog, in-progress, complete.''\<rparr>"

definition no_valid_fields :: messageObj where
  "no_valid_fields = \<lparr>message = ''No valid fields to update.'', long_message = None\<rparr>"

definition client_not_found :: messageObj where
  "client_not_found = \<lparr>message = ''Client not found.'', long_message = None\<rparr>"

text \<open>
  \<^verbatim>\<open>if (status) { ... }\<close> of the update handler: the error it sends, or \<^verbatim>\<open>updates\<close> (with
  \<^verbatim>\<open>params\<close>) after the block.
\<close>

definition put_status :: "jsval \<Rightarrow> messageObj + assignment list" where
  "put_status st =
     (if truthy st then
        (if \<not> includes_js valid_statuses st then Inl invalid_status
         else Inr [Status_eq (string_param st)])
      else Inr [])"

text \<open>
  \<^verbatim>\<open>if (priority !== undefined) { ... }\<close>: the exception \<^verbatim>\<open>parseInt\<close> throws or the error
  the block sends, or \<^verbatim>\<open>updates\<close> after the block.
\<close>

definition put_priority ::
  "jsval \<Rightarrow> assignment list \<Rightarrow> (js_error + messageObj) + assignment list" where
  "put_priority pr updates =
     (case pr of
        None \<Rightarrow> Inr updates
      | Some v \<Rightarrow>
          (case parseInt_json v of
             Inl e \<Rightarrow> Inl (Inl e)
           | Inr p \<Rightarrow>
               (case validatePriority p of
                  Invalid m \<Rightarrow> Inl (Inr m)
                | Valid \<Rightarrow> Inr (updates @ [Priority_eq p]))))"

text \<open>The update handler from \<^verbatim>\<open>const updates = []\<close> on, the client having been found.\<close>

definition put_found :: "'p db \<Rightarrow> jsnumber \<Rightarrow> req_body \<Rightarrow> 'p outcome \<times> 'p db" where
  "put_found d i b =
     (case put_status (status b) of
        Inl m \<Rightarrow> (Send 400 (Message m), d)
      | Inr updates1 \<Rightarrow>
          (case put_priority (priority b) updates1 of
             Inl (Inl e) \<Rightarrow> (Throw e, d)
           | Inl (Inr m) \<Rightarrow> (Send 400 (Message m), d)
           | Inr updates \<Rightarrow>
               (if length updates = 0 then (Send 400 (Message no_valid_fields), d)
                else
                  (case db_run_update d updates i of
                     (Inl msg, d1) \<Rightarrow>
                       (Send 500 (Message \<lparr>message = ''DB update error.'',
                                            long_message = Some msg\<rparr>), d1)
                   | (Inr u, d1) \<Rightarrow>
                       (case db_all d1 of
                          (Inl msg, d2) \<Rightarrow>
                            (Send 500 (Message \<lparr>message = ''DB fetch error.'',
                                                 long_message = Some msg\<rparr>), d2)
                        | (Inr updatedClients, d2) \<Rightarrow>
                            (Send 200 (Rows updatedClients), d2))))))"

text \<open>The callback the update handler passes to \<^verbatim>\<open>validateId\<close>, once the id is valid.\<close>

definition put_validated :: "'p db \<Rightarrow> jsnumber \<Rightarrow> req_body \<Rightarrow> 'p outcome \<times> 'p db" where
  "put_validated d i b =
     (case db_all d of
        (Inl msg, d1) \<Rightarrow> (Send 500 (Message (db_error msg)), d1)
      | (Inr clients, d1) \<Rightarrow>
          (case find (\<lambda>c. Finite (id_col c) = i) clients of
             None \<Rightarrow> (Send 404 (Message client_not_found), d1)
           | Some client \<Rightarrow> put_found d1 i b))"

text \<open>\<^verbatim>\<open>app.put('/api/v1/clients/:id')\<close>, with \<^verbatim>\<open>req.params.id\<close> and \<^verbatim>\<open>req.body\<close>.\<close>

definition put_client :: "'p db \<Rightarrow> string \<Rightarrow> req_body \<Rightarrow> 'p outcome \<times> 'p db" where
  "put_client d raw b =
     (let i = parseInt raw 10 in
      case validateId d i of
        (Invalid m, d1) \<Rightarrow> (Send 400 (Message m), d1)
      | (Valid, d1) \<Rightarrow> put_validated d1 i b)"

section \<open>Requests and stores the properties speak about\<close>

text \<open>
  The next \<open>k\<close> calls of the driver succeed; the database once \<open>k\<close> calls have been made
  that did not write.
\<close>

definition calls_succeed :: "nat \<Rightarrow> 'p db \<Rightarrow> bool" where
  "calls_succeed k d = list_all (\<lambda>f. f = None) (take k (faults d))"

definition after_calls :: "nat \<Rightarrow> 'p db \<Rightarrow> 'p db" where
  "after_calls k d = d\<lparr>faults := drop k (faults d)\<rparr>"

text \<open>The route parameter names a stored row: the handler's id is that of some row.\<close>

definition existing_id :: "'p db \<Rightarrow> string \<Rightarrow> bool" where
  "existing_id d raw =
     (case parseInt raw 10 of Finite i \<Rightarrow> i \<in> set (map id_col (rows d)) | _ \<Rightarrow> False)"

text \<open>A store with two rows and a driver that never fails.\<close>

definition sample_db :: "unit db" where
  "sample_db =
     \<lparr>rows = [\<lparr>id_col = 1, status_col = ''backlog'', priority_col = Finite 1, other_cols = ()\<rparr>,
              \<lparr>id_col = 2, status_col = ''complete'', priority_col = Finite 4, other_cols = ()\<rparr>],
      faults = []\<rparr>"

text \<open>
  An identifier input that is an integer, in the words of the specification: an optional
  sign followed by decimal digits and nothing else.
\<close>

definition integer_text :: "string \<Rightarrow> bool" where
  "integer_text s =
     (case s of
        [] \<Rightarrow> False
      | c # cs \<Rightarrow>
          (if c = CHR ''-'' \<or> c = CHR ''+'' then cs \<noteq> [] \<and> list_all (is_radix_digit 10) cs
           else list_all (is_radix_digit 10) s))"


section \<open>Facts about the store and the update handler\<close>

lemma rows_after_calls [simp]: "rows (after_calls k d) = rows d"
  by (simp add: after_calls_def)

lemma db_call_succeeds:
  "calls_succeed (Suc k) d \<Longrightarrow> db_call d = (None, after_calls 1 d) \<and> calls_succeed k (after_calls 1 d)"
  by (cases "faults d") (simp_all add: calls_succeed_def db_call_def next_fault_def after_calls_def drop_Suc)

lemma after_calls_add: "after_calls j (after_calls k d) = after_calls (k + j) d"
  by (simp add: after_calls_def add.commute)

lemma find_id_Some:
  "i \<in> set (map id_col rs) \<Longrightarrow> \<exists>c. find (\<lambda>c. Finite (id_col c) = Finite i) rs = Some c"
  by (cases "find (\<lambda>c. Finite (id_col c) = Finite i) rs") (auto simp: find_None_iff)

lemma find_id_None:
  "i \<notin> set (map id_col rs) \<Longrightarrow> find (\<lambda>c. Finite (id_col c) = Finite i) rs = None"
  by (auto simp: find_None_iff)

lemma validateId_rows: "rows (snd (validateId d i)) = rows d"
  by (simp add: validateId_def db_get_by_id_def db_call_def split: option.splits)

lemma validateId_existing:
  assumes "existing_id d raw" and "calls_succeed (Suc k) d"
  shows "validateId d (parseInt raw 10) = (Valid, after_calls 1 d)"
proof -
  from assms(1) obtain i where i: "parseInt raw 10 = Finite i" "i \<in> set (map id_col (rows d))"
    by (auto simp: existing_id_def split: jsnumber.splits)
  from find_id_Some [OF i(2)] obtain c where "find (\<lambda>c. Finite (id_col c) = Finite i) (rows d) = Some c" ..
  with i(1) db_call_succeeds [OF assms(2)] show ?thesis
    by (simp add: validateId_def db_get_by_id_def)
qed

lemma put_client_existing:
  assumes "existing_id d raw" and "calls_succeed 2 d"
  shows "put_client d raw b = put_found (after_calls 2 d) (parseInt raw 10) b"
proof -
  have two: "calls_succeed (Suc (Suc 0)) d" using assms(2) by (simp add: numeral_2_eq_2)
  from assms(1) obtain i where i: "parseInt raw 10 = Finite i" "i \<in> set (map id_col (rows d))"
    by (auto simp: existing_id_def split: jsnumber.splits)
  from find_id_Some [OF i(2)] obtain c where c: "find (\<lambda>c. Finite (id_col c) = Finite i) (rows d) = Some c" ..
  have v: "validateId d (parseInt raw 10) = (Valid, after_calls 1 d)"
    using validateId_existing [OF assms(1) two] .
  have "calls_succeed (Suc 0) (after_calls 1 d)" using db_call_succeeds [OF two] by simp
  from db_call_succeeds [OF this] have "db_call (after_calls 1 d) = (None, after_calls 2 d)"
    by (simp add: after_calls_add numeral_2_eq_2)
  with v c i(1) show ?thesis
    by (simp add: put_client_def put_validated_def db_all_def)
qed

lemma put_status_Inr:
  "put_status st = Inr us \<Longrightarrow>
     (\<not> truthy st \<and> us = []) \<or>
     (\<exists>s. st = Some (JStr s) \<and> s \<noteq> [] \<and> s \<in> set valid_statuses \<and> us = [Status_eq s])"
  by (cases st rule: truthy.cases) (auto simp: put_status_def split: if_splits)

lemma put_priority_Inr:
  "put_priority pr us1 = Inr us \<Longrightarrow>
     (pr = None \<and> us = us1) \<or>
     (\<exists>v p. pr = Some v \<and> parseInt_json v = Inr p \<and> p \<noteq> NaN \<and> \<not> less_than_one p \<and>
        us = us1 @ [Priority_eq p])"
  by (auto simp: put_priority_def validatePriority_def
      split: option.splits sum.splits validation.splits if_splits)

lemma put_found_cases:
  "(rows (snd (put_found d i b)) = rows d \<and> (\<forall>bd. fst (put_found d i b) \<noteq> Send 200 bd)) \<or>
   (\<exists>us1 us. put_status (status b) = Inr us1 \<and> put_priority (priority b) us1 = Inr us \<and> us \<noteq> [] \<and>
      next_fault d = None \<and>
      rows (snd (put_found d i b)) = update_rows us i (rows d) \<and>
      (fst (put_found d i b) = Send 200 (Rows (rows (snd (put_found d i b)))) \<or>
       (\<exists>msg. fst (put_found d i b) = Send 500 (Message \<lparr>message = ''DB fetch error.'', long_message = Some msg\<rparr>))))"
  by (auto simp: put_found_def db_run_update_def db_all_def db_call_def split: sum.splits option.splits)


lemma put_validated_cases:
  "(rows (snd (put_validated d i b)) = rows d \<and> (\<forall>bd. fst (put_validated d i b) \<noteq> Send 200 bd)) \<or>
   (\<exists>us1 us. put_status (status b) = Inr us1 \<and> put_priority (priority b) us1 = Inr us \<and> us \<noteq> [] \<and>
      rows (snd (put_validated d i b)) = update_rows us i (rows d) \<and>
      (fst (put_validated d i b) = Send 200 (Rows (rows (snd (put_validated d i b)))) \<or>
       (\<exists>msg. fst (put_validated d i b) = Send 500 (Message \<lparr>message = ''DB fetch error.'', long_message = Some msg\<rparr>))))"
proof (cases "db_all d")
  case (Pair r d1)
  have r1: "rows d1 = rows d" using Pair by (auto simp: db_all_def db_call_def split: option.splits)
  show ?thesis
  proof (cases r)
    case (Inl msg)
    with Pair show ?thesis by (simp add: put_validated_def r1)
  next
    case (Inr clients)
    show ?thesis
    proof (cases "find (\<lambda>c. Finite (id_col c) = i) clients")
      case None
      with Pair Inr show ?thesis by (simp add: put_validated_def r1)
    next
      case (Some c)
      with Pair Inr have "put_validated d i b = put_found d1 i b" by (simp add: put_validated_def)
      with put_found_cases [of d1 i b] r1 show ?thesis by auto
    qed
  qed
qed

lemma put_client_cases:
  "(rows (snd (put_client d raw b)) = rows d \<and> (\<forall>bd. fst (put_client d raw b) \<noteq> Send 200 bd)) \<or>
   (\<exists>us1 us. put_status (status b) = Inr us1 \<and> put_priority (priority b) us1 = Inr us \<and> us \<noteq> [] \<and>
      rows (snd (put_client d raw b)) = update_rows us (parseInt raw 10) (rows d) \<and>
      (fst (put_client d raw b) = Send 200 (Rows (rows (snd (put_client d raw b)))) \<or>
       (\<exists>msg. fst (put_client d raw b) = Send 500 (Message \<lparr>message = ''DB fetch error.'', long_message = Some msg\<rparr>))))"
proof (cases "validateId d (parseInt raw 10)")
  case (Pair v d1)
  have r1: "rows d1 = rows d" using validateId_rows [of d "parseInt raw 10"] Pair by simp
  show ?thesis
  proof (cases v)
    case (Invalid m)
    with Pair show ?thesis by (simp add: put_client_def r1)
  next
    case Valid
    with Pair have "put_client d raw b = put_validated d1 (parseInt raw 10) b" by (simp add: put_client_def)
    with put_validated_cases [of d1 "parseInt raw 10" b] r1 show ?thesis by auto
  qed
qed

lemma parseInt_1: "parseInt ''1'' 10 = Finite 1"
  by (simp add: parseInt_def is_white_space_def is_radix_digit_def digit_value_def radix_value_def
      to_double_def round_to_double_def)

lemma sample_existing_1: "existing_id sample_db ''1''"
  by (simp add: existing_id_def parseInt_1 sample_db_def)

lemma sample_calls_succeed: "calls_succeed k sample_db"
  by (simp add: calls_succeed_def sample_db_def)


section \<open>Integers printed and read back\<close>

declare digits10.simps [simp del]

declare bit_length.simps [simp del]

lemma to_double_not_NaN [simp]: "to_double x \<noteq> NaN"
  by (simp add: to_double_def Let_def)

text \<open>Rounding at \<open>2 ^ 53\<close>, at \<open>10 ^ 23\<close> and at the largest double.\<close>

lemma to_double_examples:
  "to_double 9007199254740992 = Finite 9007199254740992"
  "to_double 9007199254740993 = Finite 9007199254740992"
  "to_double 9007199254740995 = Finite 9007199254740996"
  "to_double (- 9007199254740993) = Finite (- 9007199254740992)"
  "to_double 100000000000000000000000 = Finite 99999999999999991611392"
  "to_double (2 ^ 1024 - 2 ^ 970 - 1) = Finite (2 ^ 1024 - 2 ^ 971)"
  "to_double (2 ^ 1024 - 2 ^ 970) = PosInfinity"
  by code_simp+











section \<open>Update with no field\<close>

text \<open>
  C4. An update request whose body has neither \<^verbatim>\<open>status\<close> nor \<^verbatim>\<open>priority\<close> writes nothing,
  whatever the store and the driver do; when its id names a stored row and the two reads
  of the handler succeed, the response is 400 with \<^verbatim>\<open>No valid fields to update.\<close>
\<close>

theorem put_no_fields:
  assumes "status b = None" and "priority b = None"
  shows "rows (snd (put_client d raw b)) = rows d \<and>
         (existing_id d raw \<and> calls_succeed 2 d \<longrightarrow>
            fst (put_client d raw b) = Send 400 (Message no_valid_fields))"
proof
  from assms have "put_status (status b) = Inr []" and "put_priority (priority b) [] = Inr []"
    by (simp_all add: put_status_def put_priority_def)
  with put_client_cases [of d raw b] show "rows (snd (put_client d raw b)) = rows d" by auto
next
  show "existing_id d raw \<and> calls_succeed 2 d \<longrightarrow>
          fst (put_client d raw b) = Send 400 (Message no_valid_fields)"
  proof
    assume "existing_id d raw \<and> calls_succeed 2 d"
    then have "put_client d raw b = put_found (after_calls 2 d) (parseInt raw 10) b"
      by (simp add: put_client_existing)
    with assms show "fst (put_client d raw b) = Send 400 (Message no_valid_fields)"
      by (simp add: put_found_def put_status_def put_priority_def)
  qed
qed

theorem put_no_fields_witness:
  "status \<lparr>status = None, priority = None\<rparr> = None \<and>
   priority \<lparr>status = None, priority = None\<rparr> = None \<and>
   existing_id sample_db ''1'' \<and> calls_succeed 2 sample_db \<and>
   rows (snd (put_client sample_db ''1'' \<lparr>status = None, priority = None\<rparr>)) = rows sample_db \<and>
   fst (put_client sample_db ''1'' \<lparr>status = None, priority = None\<rparr>) =
     Send 400 (Message no_valid_fields)"
  using put_no_fields [of "\<lparr>status = None, priority = None\<rparr>" sample_db "''1''"]
    sample_existing_1 sample_calls_succeed [of 2]
  by simp


section \<open>Update with a status outside the fixed set\<close>

lemma put_status_invalid:
  "truthy st \<Longrightarrow> \<not> includes_js valid_statuses st \<Longrightarrow> put_status st = Inl invalid_status"
  by (simp add: put_status_def)

lemma put_status_falsy: "\<not> truthy st \<Longrightarrow> put_status st = Inr []"
  by (simp add: put_status_def)

lemma parseInt_json_5: "parseInt_json (JNum False 5 1) = Inr (Finite 5)"
  by code_simp

text \<open>
  C1, as amended. An update request whose \<^verbatim>\<open>status\<close> is truthy (a non-empty string, a
  non-zero number, \<^verbatim>\<open>true\<close>, an array or an object) and is not one of \<^verbatim>\<open>backlog\<close>,
  \<^verbatim>\<open>in-progress\<close>, \<^verbatim>\<open>complete\<close> writes nothing, whatever \<^verbatim>\<open>priority\<close> comes with it; when
  its id names a stored row and the two reads of the handler succeed, the response is 400
  with \<^verbatim>\<open>Invalid status provided.\<close>
\<close>

theorem put_invalid_status:
  assumes "truthy (status b)" and "\<not> includes_js valid_statuses (status b)"
  shows "rows (snd (put_client d raw b)) = rows d \<and>
         (existing_id d raw \<and> calls_succeed 2 d \<longrightarrow>
            fst (put_client d raw b) = Send 400 (Message invalid_status))"
proof
  from assms have st: "put_status (status b) = Inl invalid_status"
    by (rule put_status_invalid)
  with put_client_cases [of d raw b] show "rows (snd (put_client d raw b)) = rows d" by auto
  show "existing_id d raw \<and> calls_succeed 2 d \<longrightarrow>
          fst (put_client d raw b) = Send 400 (Message invalid_status)"
  proof
    assume "existing_id d raw \<and> calls_succeed 2 d"
    then have "put_client d raw b = put_found (after_calls 2 d) (parseInt raw 10) b"
      by (simp add: put_client_existing)
    with st show "fst (put_client d raw b) = Send 400 (Message invalid_status)"
      by (simp add: put_found_def)
  qed
qed

theorem put_invalid_status_witness:
  "truthy (Some (JStr ''done'')) \<and> \<not> includes_js valid_statuses (Some (JStr ''done'')) \<and>
   existing_id sample_db ''1'' \<and> calls_succeed 2 sample_db \<and>
   rows (snd (put_client sample_db ''1''
     \<lparr>status = Some (JStr ''done''), priority = Some (JNum False 5 1)\<rparr>)) = rows sample_db \<and>
   fst (put_client sample_db ''1''
     \<lparr>status = Some (JStr ''done''), priority = Some (JNum False 5 1)\<rparr>) =
     Send 400 (Message invalid_status)"
  using put_invalid_status
    [of "\<lparr>status = Some (JStr ''done''), priority = Some (JNum False 5 1)\<rparr>" sample_db "''1''"]
    sample_existing_1 sample_calls_succeed [of 2]
  by (simp add: valid_statuses_def)

text \<open>
  C1 as stated fails for the empty string, a status outside the set: the request
  \<^verbatim>\<open>{status: "", priority: 5}\<close> on client 1 is answered 200 and the priority is written.
\<close>

theorem empty_status_applied:
  "existing_id sample_db ''1'' \<and>
   status \<lparr>status = Some (JStr ''''), priority = Some (JNum False 5 1)\<rparr> \<noteq> None \<and>
   \<not> includes_js valid_statuses (Some (JStr '''')) \<and>
   put_client sample_db ''1'' \<lparr>status = Some (JStr ''''), priority = Some (JNum False 5 1)\<rparr> =
     (Send 200 (Rows
        [\<lparr>id_col = 1, status_col = ''backlog'', priority_col = Finite 5, other_cols = ()\<rparr>,
         \<lparr>id_col = 2, status_col = ''complete'', priority_col = Finite 4, other_cols = ()\<rparr>]),
      \<lparr>rows = [\<lparr>id_col = 1, status_col = ''backlog'', priority_col = Finite 5, other_cols = ()\<rparr>,
               \<lparr>id_col = 2, status_col = ''complete'', priority_col = Finite 4, other_cols = ()\<rparr>],
       faults = []\<rparr>) \<and>
   rows (snd (put_client sample_db ''1''
     \<lparr>status = Some (JStr ''''), priority = Some (JNum False 5 1)\<rparr>)) \<noteq> rows sample_db"
proof -
  have run: "put_client sample_db ''1'' \<lparr>status = Some (JStr ''''), priority = Some (JNum False 5 1)\<rparr> =
     (Send 200 (Rows
        [\<lparr>id_col = 1, status_col = ''backlog'', priority_col = Finite 5, other_cols = ()\<rparr>,
         \<lparr>id_col = 2, status_col = ''complete'', priority_col = Finite 4, other_cols = ()\<rparr>]),
      \<lparr>rows = [\<lparr>id_col = 1, status_col = ''backlog'', priority_col = Finite 5, other_cols = ()\<rparr>,
               \<lparr>id_col = 2, status_col = ''complete'', priority_col = Finite 4, other_cols = ()\<rparr>],
       faults = []\<rparr>)"
    by code_simp
  have changed: "rows (snd (put_client sample_db ''1''
     \<lparr>status = Some (JStr ''''), priority = Some (JNum False 5 1)\<rparr>)) \<noteq> rows sample_db"
    unfolding run by (simp add: sample_db_def)
  have outside: "\<not> includes_js valid_statuses (Some (JStr ''''))"
    by (simp add: valid_statuses_def)
  from sample_existing_1 outside run changed show ?thesis by simp
qed


section \<open>Update with a falsy status\<close>

lemma put_found_falsy_status:
  "\<not> truthy (status b) \<Longrightarrow> put_found d i b = put_found d i (b\<lparr>status := None\<rparr>)"
  by (simp add: put_found_def put_status_falsy)

lemma put_validated_falsy_status:
  assumes "\<not> truthy (status b)"
  shows "put_validated d i b = put_validated d i (b\<lparr>status := None\<rparr>)"
  by (simp add: put_validated_def put_found_falsy_status [OF assms]
      split: prod.splits sum.splits option.splits)

lemma put_client_falsy_status:
  assumes "\<not> truthy (status b)"
  shows "put_client d raw b = put_client d raw (b\<lparr>status := None\<rparr>)"
  by (simp add: put_client_def put_validated_falsy_status [OF assms] Let_def
      split: prod.splits validation.splits)

lemma put_found_falsy_message:
  "\<not> truthy (status b) \<Longrightarrow> fst (put_found d i b) = Send c (Message m) \<Longrightarrow>
     message m \<noteq> ''Invalid status provided.''"
  by (auto simp: put_found_def put_status_falsy put_priority_def validatePriority_def
      invalid_priority_def no_valid_fields_def db_run_update_def db_all_def db_call_def
      split: sum.splits option.splits if_splits)

lemma put_client_falsy_message:
  assumes "\<not> truthy (status b)" and "fst (put_client d raw b) = Send c (Message m)"
  shows "message m \<noteq> ''Invalid status provided.''"
proof (cases "validateId d (parseInt raw 10)")
  case (Pair v d1)
  show ?thesis
  proof (cases v)
    case (Invalid m')
    with Pair assms(2) have "m = m'" by (simp add: put_client_def)
    with Pair Invalid show ?thesis
      by (auto simp: validateId_def id_not_integer_def id_not_found_def db_error_def
          db_get_by_id_def db_call_def split: if_splits option.splits)
  next
    case Valid
    with Pair have pc: "put_client d raw b = put_validated d1 (parseInt raw 10) b"
      by (simp add: put_client_def)
    show ?thesis
    proof (cases "db_all d1")
      case (Pair r d2)
      show ?thesis
      proof (cases r)
        case (Inl msg)
        with Pair pc assms(2) show ?thesis
          by (auto simp: put_validated_def db_error_def)
      next
        case (Inr clients)
        show ?thesis
        proof (cases "find (\<lambda>c. Finite (id_col c) = parseInt raw 10) clients")
          case None
          with Pair Inr pc assms(2) show ?thesis
            by (auto simp: put_validated_def client_not_found_def)
        next
          case (Some cl)
          with Pair Inr pc have "put_client d raw b = put_found d2 (parseInt raw 10) b"
            by (simp add: put_validated_def)
          with assms show ?thesis by (simp add: put_found_falsy_message)
        qed
      qed
    qed
  qed
qed

text \<open>
  C9. An update request whose \<^verbatim>\<open>status\<close> is falsy (the empty string; also \<^verbatim>\<open>null\<close>,
  \<^verbatim>\<open>false\<close> and \<^verbatim>\<open>0\<close>) is handled exactly as the same request without \<^verbatim>\<open>status\<close>: the
  response and the store are the same. No response carries \<^verbatim>\<open>Invalid status provided.\<close>, and
  when \<^verbatim>\<open>priority\<close> is absent too (the id naming a stored row, the two reads succeeding)
  the response is 400 with \<^verbatim>\<open>No valid fields to update.\<close>
\<close>

theorem falsy_status_is_absent:
  assumes "status b \<noteq> None" and "\<not> truthy (status b)"
  shows "put_client d raw b = put_client d raw (b\<lparr>status := None\<rparr>) \<and>
         (\<forall>c m. fst (put_client d raw b) = Send c (Message m) \<longrightarrow>
            message m \<noteq> ''Invalid status provided.'') \<and>
         (priority b = None \<and> existing_id d raw \<and> calls_succeed 2 d \<longrightarrow>
            fst (put_client d raw b) = Send 400 (Message no_valid_fields))"
proof (intro conjI allI impI)
  show "put_client d raw b = put_client d raw (b\<lparr>status := None\<rparr>)"
    using assms(2) by (rule put_client_falsy_status)
next
  fix c m
  assume "fst (put_client d raw b) = Send c (Message m)"
  with assms(2) show "message m \<noteq> ''Invalid status provided.''"
    by (rule put_client_falsy_message)
next
  assume h: "priority b = None \<and> existing_id d raw \<and> calls_succeed 2 d"
  then have "put_client d raw b = put_found (after_calls 2 d) (parseInt raw 10) b"
    by (simp add: put_client_existing)
  with h assms(2) show "fst (put_client d raw b) = Send 400 (Message no_valid_fields)"
    by (simp add: put_found_def put_status_falsy put_priority_def)
qed

theorem falsy_status_is_absent_witness:
  "status \<lparr>status = Some (JStr ''''), priority = None\<rparr> \<noteq> None \<and>
   \<not> truthy (status \<lparr>status = Some (JStr ''''), priority = None\<rparr>) \<and>
   existing_id sample_db ''1'' \<and> calls_succeed 2 sample_db \<and>
   put_client sample_db ''1'' \<lparr>status = Some (JStr ''''), priority = None\<rparr> =
     put_client sample_db ''1'' \<lparr>status = None, priority = None\<rparr> \<and>
   fst (put_client sample_db ''1'' \<lparr>status = Some (JStr ''''), priority = None\<rparr>) =
     Send 400 (Message no_valid_fields)"
proof -
  have h1: "status \<lparr>status = Some (JStr []), priority = None\<rparr> \<noteq> None"
    by simp
  have h2: "\<not> truthy (status \<lparr>status = Some (JStr []), priority = None\<rparr>)"
    by simp
  note t = falsy_status_is_absent [OF h1 h2, of sample_db "[CHR ''1'']"]
  have h3: "existing_id sample_db [CHR ''1'']"
    using sample_existing_1 by simp
  have h4: "calls_succeed 2 sample_db"
    by (rule sample_calls_succeed)
  from t have a: "put_client sample_db [CHR ''1''] \<lparr>status = Some (JStr []), priority = None\<rparr> =
     put_client sample_db [CHR ''1''] \<lparr>status = None, priority = None\<rparr>"
    by simp
  from t [THEN conjunct2, THEN conjunct2] h3 h4 have b: "fst (put_client sample_db [CHR ''1'']
      \<lparr>status = Some (JStr []), priority = None\<rparr>) = Send 400 (Message no_valid_fields)"
    by simp
  from h1 h2 h3 h4 a b show ?thesis by blast
qed


section \<open>Update with a priority that is not a positive integer\<close>

lemma put_priority_invalid:
  assumes "parseInt_json v = Inr p" and "p = NaN \<or> less_than_one p"
  shows "put_priority (Some v) us = Inl (Inr invalid_priority)"
  using assms by (auto simp: put_priority_def validatePriority_def)

lemma put_status_cases:
  "put_status st =
     (if truthy st \<and> \<not> includes_js valid_statuses st then Inl invalid_status
      else if truthy st then Inr [Status_eq (string_param st)] else Inr [])"
  by (simp add: put_status_def)

text \<open>
  What the priority check rejects: a priority that \<^verbatim>\<open>parseInt\<close> reads as \<^verbatim>\<open>NaN\<close> or as a
  number below 1. Nothing is written; on an existing id with the two reads succeeding the
  response is 400, with \<^verbatim>\<open>Invalid priority provided.\<close> unless the status of the same
  request is rejected first.
\<close>

lemma put_priority_rejected:
  assumes "priority b = Some v" and "parseInt_json v = Inr p"
    and "p = NaN \<or> less_than_one p"
  shows "rows (snd (put_client d raw b)) = rows d \<and>
         (existing_id d raw \<and> calls_succeed 2 d \<longrightarrow>
            fst (put_client d raw b) =
              Send 400 (Message
                (if truthy (status b) \<and> \<not> includes_js valid_statuses (status b)
                 then invalid_status else invalid_priority)))"
proof
  have pr: "put_priority (priority b) us = Inl (Inr invalid_priority)" for us
    using put_priority_invalid [OF assms(2,3)] assms(1) by simp
  with put_client_cases [of d raw b] show "rows (snd (put_client d raw b)) = rows d" by auto
  show "existing_id d raw \<and> calls_succeed 2 d \<longrightarrow>
          fst (put_client d raw b) =
            Send 400 (Message
              (if truthy (status b) \<and> \<not> includes_js valid_statuses (status b)
               then invalid_status else invalid_priority))"
  proof
    assume "existing_id d raw \<and> calls_succeed 2 d"
    then have "put_client d raw b = put_found (after_calls 2 d) (parseInt raw 10) b"
      by (simp add: put_client_existing)
    then show "fst (put_client d raw b) =
            Send 400 (Message
              (if truthy (status b) \<and> \<not> includes_js valid_statuses (status b)
               then invalid_status else invalid_priority))"
      by (simp add: put_found_def put_status_cases pr)
  qed
qed

text \<open>The priority \<^verbatim>\<open>0\<close> with a valid status is rejected with \<^verbatim>\<open>Invalid priority provided.\<close>\<close>

lemma put_priority_zero:
  "put_client sample_db ''1''
     \<lparr>status = Some (JStr ''complete''), priority = Some (JNum False 0 0)\<rparr> =
   (Send 400 (Message
      \<lparr>message = ''Invalid priority provided.'',
       long_message = Some ''Priority can only be positive integer.''\<rparr>),
    sample_db)"
  by code_simp

text \<open>
  C2. A priority below 1 and a priority that is not an integer are not always rejected:
  \<^verbatim>\<open>parseInt\<close> reads the leading digits of the printed number. The request
  \<^verbatim>\<open>{priority: 5e-7}\<close> on client 2 is answered 200 and the priority 5 is written; the request
  \<^verbatim>\<open>{priority: 1.9}\<close> on client 2 is answered 200 and the priority 1 is written.
\<close>

theorem priority_digits_written:
  "to_string (JNum False 5 (- 6)) = Inr ''5e-7'' \<and>
   put_client sample_db ''2'' \<lparr>status = None, priority = Some (JNum False 5 (- 6))\<rparr> =
     (Send 200 (Rows
        [\<lparr>id_col = 1, status_col = ''backlog'', priority_col = Finite 1, other_cols = ()\<rparr>,
         \<lparr>id_col = 2, status_col = ''complete'', priority_col = Finite 5, other_cols = ()\<rparr>]),
      \<lparr>rows = [\<lparr>id_col = 1, status_col = ''backlog'', priority_col = Finite 1, other_cols = ()\<rparr>,
               \<lparr>id_col = 2, status_col = ''complete'', priority_col = Finite 5, other_cols = ()\<rparr>],
       faults = []\<rparr>) \<and>
   to_string (JNum False 19 1) = Inr ''1.9'' \<and>
   put_client sample_db ''2'' \<lparr>status = None, priority = Some (JNum False 19 1)\<rparr> =
     (Send 200 (Rows
        [\<lparr>id_col = 1, status_col = ''backlog'', priority_col = Finite 1, other_cols = ()\<rparr>,
         \<lparr>id_col = 2, status_col = ''complete'', priority_col = Finite 1, other_cols = ()\<rparr>]),
      \<lparr>rows = [\<lparr>id_col = 1, status_col = ''backlog'', priority_col = Finite 1, other_cols = ()\<rparr>,
               \<lparr>id_col = 2, status_col = ''complete'', priority_col = Finite 1, other_cols = ()\<rparr>],
       faults = []\<rparr>)"
proof -
  have s1: "to_string (JNum False 5 (- 6)) = Inr ''5e-7''"
    by code_simp
  have r1: "put_client sample_db ''2'' \<lparr>status = None, priority = Some (JNum False 5 (- 6))\<rparr> =
     (Send 200 (Rows
        [\<lparr>id_col = 1, status_col = ''backlog'', priority_col = Finite 1, other_cols = ()\<rparr>,
         \<lparr>id_col = 2, status_col = ''complete'', priority_col = Finite 5, other_cols = ()\<rparr>]),
      \<lparr>rows = [\<lparr>id_col = 1, status_col = ''backlog'', priority_col = Finite 1, other_cols = ()\<rparr>,
               \<lparr>id_col = 2, status_col = ''complete'', priority_col = Finite 5, other_cols = ()\<rparr>],
       faults = []\<rparr>)"
    by code_simp
  have s2: "to_string (JNum False 19 1) = Inr ''1.9''"
    by code_simp
  have r2: "put_client sample_db ''2'' \<lparr>status = None, priority = Some (JNum False 19 1)\<rparr> =
     (Send 200 (Rows
        [\<lparr>id_col = 1, status_col = ''backlog'', priority_col = Finite 1, other_cols = ()\<rparr>,
         \<lparr>id_col = 2, status_col = ''complete'', priority_col = Finite 1, other_cols = ()\<rparr>]),
      \<lparr>rows = [\<lparr>id_col = 1, status_col = ''backlog'', priority_col = Finite 1, other_cols = ()\<rparr>,
               \<lparr>id_col = 2, status_col = ''complete'', priority_col = Finite 1, other_cols = ()\<rparr>],
       faults = []\<rparr>)"
    by code_simp
  from s1 r1 s2 r2 show ?thesis by blast
qed

text \<open>
  A priority that \<^verbatim>\<open>parseInt\<close> cannot convert to a string (an object with an own
  \<^verbatim>\<open>toString\<close> property) ends the handler with a \<^verbatim>\<open>TypeError\<close>: nothing is sent, nothing
  is written. A string that starts with digits is read as those digits, and an integer
  above \<open>2 ^ 53\<close> is written as the nearest double.
\<close>

lemma put_priority_throws:
  "put_client sample_db ''1''
     \<lparr>status = None, priority = Some (JObj [(''toString'', JNull)])\<rparr> =
   (Throw TypeError, sample_db)"
  by code_simp

lemma put_priority_prefix:
  "fst (put_client sample_db ''2'' \<lparr>status = None, priority = Some (JStr ''12abc'')\<rparr>) =
   Send 200 (Rows
     [\<lparr>id_col = 1, status_col = ''backlog'', priority_col = Finite 1, other_cols = ()\<rparr>,
      \<lparr>id_col = 2, status_col = ''complete'', priority_col = Finite 12, other_cols = ()\<rparr>])"
  by code_simp

lemma put_priority_rounded:
  "fst (put_client sample_db ''2''
     \<lparr>status = None, priority = Some (JStr ''9007199254740993'')\<rparr>) =
   Send 200 (Rows
     [\<lparr>id_col = 1, status_col = ''backlog'', priority_col = Finite 1, other_cols = ()\<rparr>,
      \<lparr>id_col = 2, status_col = ''complete'', priority_col = Finite 9007199254740992,
        other_cols = ()\<rparr>])"
  by code_simp


section \<open>Identifiers that are not integers\<close>

text \<open>
  \<^verbatim>\<open>parseInt(raw, 10)\<close> is \<^verbatim>\<open>NaN\<close> exactly when, after the leading white space and one
  sign, the input does not start with a decimal digit.
\<close>

lemma parseInt_10_NaN_iff:
  "parseInt raw 10 = NaN \<longleftrightarrow>
     (case (case dropWhile is_white_space raw of
              [] \<Rightarrow> []
            | c # cs \<Rightarrow> (if c = CHR ''+'' \<or> c = CHR ''-'' then cs else c # cs)) of
        [] \<Rightarrow> True
      | c # cs \<Rightarrow> \<not> is_radix_digit 10 c)"
proof -
  define S where "S = dropWhile is_white_space raw"
  define S1 where
    "S1 = (case S of [] \<Rightarrow> [] | c # cs \<Rightarrow> (if c = CHR ''+'' \<or> c = CHR ''-'' then cs else c # cs))"
  have "parseInt raw 10 = NaN \<longleftrightarrow> takeWhile (is_radix_digit 10) S1 = []"
    unfolding parseInt_def S_def [symmetric]
    by (cases S) (auto simp: S1_def Let_def)
  also have "\<dots> \<longleftrightarrow> (case S1 of [] \<Rightarrow> True | c # cs \<Rightarrow> \<not> is_radix_digit 10 c)"
    by (cases S1) simp_all
  finally show ?thesis by (simp add: S1_def S_def)
qed

lemma digit_not_white_space: "is_radix_digit 10 c \<Longrightarrow> \<not> is_white_space c"
  by (auto simp: is_radix_digit_def digit_value_def is_white_space_def Let_def split: if_splits)

lemma digit_not_sign: "is_radix_digit 10 c \<Longrightarrow> c \<noteq> CHR ''-'' \<and> c \<noteq> CHR ''+''"
  by (auto simp: is_radix_digit_def digit_value_def)

lemma parseInt_digits:
  assumes "is_radix_digit 10 c"
  shows "parseInt (c # cs) 10 \<noteq> NaN"
  using assms digit_not_white_space [OF assms] digit_not_sign [OF assms]
  by (simp add: parseInt_def)

lemma parseInt_signed_digits:
  assumes "c = CHR ''-'' \<or> c = CHR ''+''" and "is_radix_digit 10 c'"
  shows "parseInt (c # c' # cs) 10 \<noteq> NaN"
proof -
  have "\<not> is_white_space c" using assms(1) by (auto simp: is_white_space_def)
  with assms show ?thesis by (auto simp: parseInt_def)
qed

text \<open>Every integer is read by \<^verbatim>\<open>parseInt\<close>: an input read as \<^verbatim>\<open>NaN\<close> is not an integer.\<close>

lemma integer_text_parses: "integer_text raw \<Longrightarrow> parseInt raw 10 \<noteq> NaN"
proof (cases raw)
  case Nil
  assume "integer_text raw"
  with Nil show ?thesis by (simp add: integer_text_def)
next
  case (Cons c cs)
  assume it: "integer_text raw"
  show ?thesis
  proof (cases "c = CHR ''-'' \<or> c = CHR ''+''")
    case True
    with it Cons obtain c' cs' where "cs = c' # cs'" and "is_radix_digit 10 c'"
      by (cases cs) (auto simp: integer_text_def)
    with True Cons show ?thesis by (simp add: parseInt_signed_digits)
  next
    case False
    with it Cons have "is_radix_digit 10 c" by (auto simp: integer_text_def)
    with Cons show ?thesis by (simp add: parseInt_digits)
  qed
qed

text \<open>
  What the identifier check rejects: an input that \<^verbatim>\<open>parseInt(raw, 10)\<close> reads as \<^verbatim>\<open>NaN\<close>.
  Get-by-identifier and update answer 400 with \<^verbatim>\<open>Invalid id provided.\<close> /
  \<^verbatim>\<open>Id can only be integer.\<close> and leave the database as it is: no call reaches the store.
\<close>

lemma nan_id_answered_400:
  assumes "parseInt raw 10 = NaN"
  shows "get_client d raw = (Send 400 (Message id_not_integer), d) \<and>
         put_client d raw b = (Send 400 (Message id_not_integer), d)"
  using assms by (simp add: get_client_def put_client_def validateId_def)

lemma parseInt_abc: "parseInt ''abc'' 10 = NaN"
  by (simp add: parseInt_def is_white_space_def is_radix_digit_def digit_value_def)

text \<open>
  C3. An identifier input that is not an integer is not always rejected: \<^verbatim>\<open>1.5\<close> is not
  an integer, yet get-by-identifier answers 200 with client 1 and the update answers 200
  and writes to client 1, \<^verbatim>\<open>parseInt\<close> reading the leading digits.
\<close>

theorem fractional_id_accepted:
  "\<not> integer_text ''1.5'' \<and>
   get_client sample_db ''1.5'' =
     (Send 200 (Row (Some
        \<lparr>id_col = 1, status_col = ''backlog'', priority_col = Finite 1, other_cols = ()\<rparr>)),
      sample_db) \<and>
   put_client sample_db ''1.5'' \<lparr>status = Some (JStr ''complete''), priority = None\<rparr> =
     (Send 200 (Rows
        [\<lparr>id_col = 1, status_col = ''complete'', priority_col = Finite 1, other_cols = ()\<rparr>,
         \<lparr>id_col = 2, status_col = ''complete'', priority_col = Finite 4, other_cols = ()\<rparr>]),
      \<lparr>rows = [\<lparr>id_col = 1, status_col = ''complete'', priority_col = Finite 1, other_cols = ()\<rparr>,
               \<lparr>id_col = 2, status_col = ''complete'', priority_col = Finite 4, other_cols = ()\<rparr>],
       faults = []\<rparr>) \<and>
   rows (snd (put_client sample_db ''1.5''
     \<lparr>status = Some (JStr ''complete''), priority = None\<rparr>)) \<noteq> rows sample_db"
proof -
  have a: "\<not> integer_text ''1.5''"
    by (simp add: integer_text_def is_radix_digit_def digit_value_def)
  have g: "get_client sample_db ''1.5'' =
     (Send 200 (Row (Some
        \<lparr>id_col = 1, status_col = ''backlog'', priority_col = Finite 1, other_cols = ()\<rparr>)),
      sample_db)"
    by code_simp
  have p: "put_client sample_db ''1.5'' \<lparr>status = Some (JStr ''complete''), priority = None\<rparr> =
     (Send 200 (Rows
        [\<lparr>id_col = 1, status_col = ''complete'', priority_col = Finite 1, other_cols = ()\<rparr>,
         \<lparr>id_col = 2, status_col = ''complete'', priority_col = Finite 4, other_cols = ()\<rparr>]),
      \<lparr>rows = [\<lparr>id_col = 1, status_col = ''complete'', priority_col = Finite 1, other_cols = ()\<rparr>,
               \<lparr>id_col = 2, status_col = ''complete'', priority_col = Finite 4, other_cols = ()\<rparr>],
       faults = []\<rparr>)"
    by code_simp
  have c: "rows (snd (put_client sample_db ''1.5''
     \<lparr>status = Some (JStr ''complete''), priority = None\<rparr>)) \<noteq> rows sample_db"
    unfolding p by (simp add: sample_db_def)
  from a g p c show ?thesis by blast
qed


section \<open>Successful updates\<close>

lemma put_client_nan_id:
  "parseInt raw 10 = NaN \<Longrightarrow> put_client d raw b = (Send 400 (Message id_not_integer), d)"
  by (simp add: put_client_def validateId_def)

lemma validateId_no_match:
  assumes "i \<noteq> NaN" and "\<forall>c \<in> set (rows d). Finite (id_col c) \<noteq> i"
  shows "fst (validateId d i) =
           Invalid (case next_fault d of None \<Rightarrow> id_not_found | Some msg \<Rightarrow> db_error msg)"
proof -
  have "find (\<lambda>c. Finite (id_col c) = i) (rows d) = None"
    using assms(2) by (simp add: find_None_iff)
  with assms(1) show ?thesis
    by (cases "next_fault d") (simp_all add: validateId_def db_get_by_id_def db_call_def)
qed

lemma put_client_no_match:
  assumes "parseInt raw 10 \<noteq> NaN"
    and "\<forall>c \<in> set (rows d). Finite (id_col c) \<noteq> parseInt raw 10"
  shows "fst (put_client d raw b) =
           Send 400 (Message
             (case next_fault d of None \<Rightarrow> id_not_found | Some msg \<Rightarrow> db_error msg))"
proof (cases "validateId d (parseInt raw 10)")
  case (Pair v d1)
  with validateId_no_match [OF assms] show ?thesis
    by (simp add: put_client_def)
qed

lemma put_client_unknown_id:
  assumes "parseInt raw 10 = Finite i" and "i \<notin> set (map id_col (rows d))"
  shows "fst (put_client d raw b) =
           Send 400 (Message
             (case next_fault d of None \<Rightarrow> id_not_found | Some msg \<Rightarrow> db_error msg))"
proof (rule put_client_no_match)
  show "parseInt raw 10 \<noteq> NaN" using assms(1) by simp
  show "\<forall>c \<in> set (rows d). Finite (id_col c) \<noteq> parseInt raw 10"
    using assms by auto
qed

lemma put_client_200_existing:
  assumes "put_client d raw b = (Send 200 bd, d')"
  shows "existing_id d raw"
proof (cases "parseInt raw 10")
  case NaN
  with assms show ?thesis by (simp add: put_client_nan_id)
next
  case (Finite i)
  show ?thesis
  proof (cases "i \<in> set (map id_col (rows d))")
    case True
    with Finite show ?thesis by (simp add: existing_id_def)
  next
    case False
    from put_client_unknown_id [OF Finite False, of b] assms show ?thesis by simp
  qed
next
  case PosInfinity
  then have "fst (put_client d raw b) =
      Send 400 (Message
        (case next_fault d of None \<Rightarrow> id_not_found | Some msg \<Rightarrow> db_error msg))"
    by (intro put_client_no_match) simp_all
  with assms show ?thesis by simp
next
  case NegInfinity
  then have "fst (put_client d raw b) =
      Send 400 (Message
        (case next_fault d of None \<Rightarrow> id_not_found | Some msg \<Rightarrow> db_error msg))"
    by (intro put_client_no_match) simp_all
  with assms show ?thesis by simp
qed

lemma put_client_success:
  assumes "put_client d raw b = (Send 200 bd, d')"
  shows "\<exists>us1 us. put_status (status b) = Inr us1 \<and> put_priority (priority b) us1 = Inr us \<and>
           us \<noteq> [] \<and> rows d' = update_rows us (parseInt raw 10) (rows d) \<and> bd = Rows (rows d')"
  using put_client_cases [of d raw b] assms by auto

text \<open>
  C5. When an update request succeeds (200), the body of the response is the whole table
  as the database holds it after the write, and that table is the one the \<^verbatim>\<open>UPDATE\<close>
  statement of the request produced.
\<close>

theorem put_success_returns_all:
  assumes "put_client d raw b = (Send 200 bd, d')"
  shows "bd = Rows (rows d') \<and>
         (\<exists>us. us \<noteq> [] \<and> rows d' = update_rows us (parseInt raw 10) (rows d))"
  using put_client_success [OF assms] by auto

lemma put_sample_in_progress:
  "put_client sample_db ''1'' \<lparr>status = Some (JStr ''in-progress''), priority = None\<rparr> =
     (Send 200 (Rows
        [\<lparr>id_col = 1, status_col = ''in-progress'', priority_col = Finite 1, other_cols = ()\<rparr>,
         \<lparr>id_col = 2, status_col = ''complete'', priority_col = Finite 4, other_cols = ()\<rparr>]),
      \<lparr>rows = [\<lparr>id_col = 1, status_col = ''in-progress'', priority_col = Finite 1, other_cols = ()\<rparr>,
               \<lparr>id_col = 2, status_col = ''complete'', priority_col = Finite 4, other_cols = ()\<rparr>],
       faults = []\<rparr>)"
  by code_simp

theorem put_success_returns_all_witness:
  "put_client sample_db ''1'' \<lparr>status = Some (JStr ''in-progress''), priority = None\<rparr> =
     (Send 200 (Rows
        [\<lparr>id_col = 1, status_col = ''in-progress'', priority_col = Finite 1, other_cols = ()\<rparr>,
         \<lparr>id_col = 2, status_col = ''complete'', priority_col = Finite 4, other_cols = ()\<rparr>]),
      \<lparr>rows = [\<lparr>id_col = 1, status_col = ''in-progress'', priority_col = Finite 1, other_cols = ()\<rparr>,
               \<lparr>id_col = 2, status_col = ''complete'', priority_col = Finite 4, other_cols = ()\<rparr>],
       faults = []\<rparr>) \<and>
   fst (put_client sample_db ''1'' \<lparr>status = Some (JStr ''in-progress''), priority = None\<rparr>) =
     Send 200 (Rows (rows (snd (put_client sample_db ''1''
       \<lparr>status = Some (JStr ''in-progress''), priority = None\<rparr>))))"
proof -
  note t = put_success_returns_all [OF put_sample_in_progress]
  from t have "fst (put_client sample_db ''1''
        \<lparr>status = Some (JStr ''in-progress''), priority = None\<rparr>) =
     Send 200 (Rows (rows (snd (put_client sample_db ''1''
       \<lparr>status = Some (JStr ''in-progress''), priority = None\<rparr>))))"
    unfolding put_sample_in_progress by simp
  with put_sample_in_progress show ?thesis by blast
qed


section \<open>What a successful update changes\<close>

lemma put_updates_shape:
  assumes "put_status st = Inr us1" and "put_priority pr us1 = Inr us" and "us \<noteq> []"
  shows "\<exists>s p.
     (case s of None \<Rightarrow> \<not> truthy st
      | Some x \<Rightarrow> st = Some (JStr x) \<and> x \<in> set valid_statuses) \<and>
     (case p of None \<Rightarrow> pr = None
      | Some n \<Rightarrow> n \<noteq> NaN \<and> \<not> less_than_one n \<and>
          (\<exists>v. pr = Some v \<and> parseInt_json v = Inr n)) \<and>
     us = (case s of None \<Rightarrow> [] | Some x \<Rightarrow> [Status_eq x]) @
          (case p of None \<Rightarrow> [] | Some n \<Rightarrow> [Priority_eq n])"
proof -
  from put_status_Inr [OF assms(1)] obtain s where
    s: "case s of None \<Rightarrow> \<not> truthy st | Some x \<Rightarrow> st = Some (JStr x) \<and> x \<in> set valid_statuses"
    and us1: "us1 = (case s of None \<Rightarrow> [] | Some x \<Rightarrow> [Status_eq x])"
  proof (elim disjE conjE exE)
    assume "\<not> truthy st" and "us1 = []"
    then show ?thesis by (intro that [of None]) simp_all
  next
    fix x
    assume "st = Some (JStr x)" and "x \<in> set valid_statuses" and "us1 = [Status_eq x]"
    then show ?thesis by (intro that [of "Some x"]) simp_all
  qed
  from put_priority_Inr [OF assms(2)] obtain p where
    p: "case p of None \<Rightarrow> pr = None
        | Some n \<Rightarrow> n \<noteq> NaN \<and> \<not> less_than_one n \<and>
            (\<exists>v. pr = Some v \<and> parseInt_json v = Inr n)"
    and us: "us = us1 @ (case p of None \<Rightarrow> [] | Some n \<Rightarrow> [Priority_eq n])"
  proof (elim disjE conjE exE)
    assume "pr = None" and "us = us1"
    then show ?thesis by (intro that [of None]) simp_all
  next
    fix v n
    assume "pr = Some v" and "parseInt_json v = Inr n" and "n \<noteq> NaN"
      and "\<not> less_than_one n" and "us = us1 @ [Priority_eq n]"
    then show ?thesis by (intro that [of "Some n"]) simp_all
  qed
  from s p us us1 show ?thesis by blast
qed







section \<open>Applying an update twice\<close>

lemma id_col_fold_assign: "id_col (fold assign us c) = id_col c"
proof (induction us arbitrary: c)
  case Nil
  show ?case by simp
next
  case (Cons a us)
  then show ?case by (cases a) simp_all
qed

lemma ids_update_rows: "map id_col (update_rows us i rs) = map id_col rs"
  by (simp add: update_rows_def id_col_fold_assign)

lemma update_rows_fields_idem:
  "update_rows ((case s of None \<Rightarrow> [] | Some x \<Rightarrow> [Status_eq x]) @
                (case p of None \<Rightarrow> [] | Some n \<Rightarrow> [Priority_eq n])) i
     (update_rows ((case s of None \<Rightarrow> [] | Some x \<Rightarrow> [Status_eq x]) @
                   (case p of None \<Rightarrow> [] | Some n \<Rightarrow> [Priority_eq n])) i rs) =
   update_rows ((case s of None \<Rightarrow> [] | Some x \<Rightarrow> [Status_eq x]) @
                (case p of None \<Rightarrow> [] | Some n \<Rightarrow> [Priority_eq n])) i rs"
  by (cases s; cases p) (simp_all add: update_rows_def)

lemma put_updates_idem:
  assumes "put_status st = Inr us1" and "put_priority pr us1 = Inr us" and "us \<noteq> []"
  shows "update_rows us i (update_rows us i rs) = update_rows us i rs"
proof -
  from put_updates_shape [OF assms] obtain s p where
    "us = (case s of None \<Rightarrow> [] | Some x \<Rightarrow> [Status_eq x]) @
          (case p of None \<Rightarrow> [] | Some n \<Rightarrow> [Priority_eq n])"
    by blast
  then show ?thesis by (simp only: update_rows_fields_idem)
qed

lemma calls_succeed_split:
  "calls_succeed (j + k) d \<Longrightarrow> calls_succeed j d \<and> calls_succeed k (after_calls j d)"
  by (simp add: calls_succeed_def after_calls_def list_all_iff take_add)

lemma calls_succeed_2:
  assumes "calls_succeed 2 d"
  shows "db_call d = (None, after_calls 1 d)"
    and "db_call (after_calls 1 d) = (None, after_calls 2 d)"
proof -
  have two: "calls_succeed (Suc (Suc 0)) d" using assms by (simp add: numeral_2_eq_2)
  from db_call_succeeds [OF two] show "db_call d = (None, after_calls 1 d)" by simp
  from db_call_succeeds [OF two] have "calls_succeed (Suc 0) (after_calls 1 d)" by simp
  from db_call_succeeds [OF this] show "db_call (after_calls 1 d) = (None, after_calls 2 d)"
    by (simp add: after_calls_add numeral_2_eq_2)
qed

lemma put_found_success:
  assumes "put_status (status b) = Inr us1" and "put_priority (priority b) us1 = Inr us"
    and "us \<noteq> []" and "calls_succeed 2 d"
  shows "fst (put_found d i b) = Send 200 (Rows (update_rows us i (rows d)))"
proof -
  from calls_succeed_2 (1) [OF assms(4)] have c1: "next_fault d = None"
    by (simp add: db_call_def)
  from calls_succeed_2 (2) [OF assms(4)] have c2: "next_fault (after_calls 1 d) = None"
    by (simp add: db_call_def)
  have "next_fault (d\<lparr>faults := tl (faults d), rows := rs\<rparr>) = next_fault (after_calls 1 d)" for rs
    by (simp add: next_fault_def after_calls_def drop_Suc)
  with c1 c2 assms(1-3) show ?thesis
    by (simp add: put_found_def db_run_update_def db_all_def db_call_def)
qed

text \<open>
  C8. When an update request has succeeded (200), handling the same request again leaves
  the table as the first application left it, whatever the driver does then; and when the
  four calls of the second run succeed, it is answered 200 with the same body.
\<close>

theorem put_twice:
  assumes "put_client d raw b = (Send 200 bd, d1)"
  shows "rows (snd (put_client d1 raw b)) = rows d1 \<and>
         (calls_succeed 4 d1 \<longrightarrow> fst (put_client d1 raw b) = Send 200 bd)"
proof -
  from put_client_success [OF assms] obtain us1 us where
    st: "put_status (status b) = Inr us1" and pr: "put_priority (priority b) us1 = Inr us"
    and ne: "us \<noteq> []" and r: "rows d1 = update_rows us (parseInt raw 10) (rows d)"
    and bd: "bd = Rows (rows d1)"
    by blast
  have idem: "update_rows us (parseInt raw 10) (rows d1) = rows d1"
    unfolding r by (rule put_updates_idem [OF st pr ne])
  have same: "rows (snd (put_client d1 raw b)) = rows d1"
    using put_client_cases [of d1 raw b] st pr idem by auto
  have again: "fst (put_client d1 raw b) = Send 200 bd" if cs: "calls_succeed 4 d1"
  proof -
    have ids: "map id_col (rows d1) = map id_col (rows d)"
      unfolding r by (rule ids_update_rows)
    from put_client_200_existing [OF assms] have "existing_id d1 raw"
      unfolding existing_id_def ids .
    moreover from calls_succeed_split [of 2 2 d1] cs
    have c2: "calls_succeed 2 d1" and c4: "calls_succeed 2 (after_calls 2 d1)"
      by simp_all
    ultimately have "put_client d1 raw b = put_found (after_calls 2 d1) (parseInt raw 10) b"
      by (simp add: put_client_existing)
    with put_found_success [OF st pr ne c4, of "parseInt raw 10"] idem bd show ?thesis
      by simp
  qed
  from same again show ?thesis by blast
qed

lemma put_sample_priority:
  "put_client sample_db ''2'' \<lparr>status = None, priority = Some (JStr ''9'')\<rparr> =
     (Send 200 (Rows
        [\<lparr>id_col = 1, status_col = ''backlog'', priority_col = Finite 1, other_cols = ()\<rparr>,
         \<lparr>id_col = 2, status_col = ''complete'', priority_col = Finite 9, other_cols = ()\<rparr>]),
      \<lparr>rows = [\<lparr>id_col = 1, status_col = ''backlog'', priority_col = Finite 1, other_cols = ()\<rparr>,
               \<lparr>id_col = 2, status_col = ''complete'', priority_col = Finite 9, other_cols = ()\<rparr>],
       faults = []\<rparr>)"
  by code_simp

theorem put_twice_witness:
  "put_client sample_db ''2'' \<lparr>status = None, priority = Some (JStr ''9'')\<rparr> =
     (Send 200 (Rows
        [\<lparr>id_col = 1, status_col = ''backlog'', priority_col = Finite 1, other_cols = ()\<rparr>,
         \<lparr>id_col = 2, status_col = ''complete'', priority_col = Finite 9, other_cols = ()\<rparr>]),
      \<lparr>rows = [\<lparr>id_col = 1, status_col = ''backlog'', priority_col = Finite 1, other_cols = ()\<rparr>,
               \<lparr>id_col = 2, status_col = ''complete'', priority_col = Finite 9, other_cols = ()\<rparr>],
       faults = []\<rparr>) \<and>
   calls_succeed 4
     \<lparr>rows = [\<lparr>id_col = 1, status_col = ''backlog'', priority_col = Finite 1, other_cols = ()\<rparr>,
              \<lparr>id_col = 2, status_col = ''complete'', priority_col = Finite 9, other_cols = ()\<rparr>],
      faults = []\<rparr> \<and>
   rows (snd (put_client
     \<lparr>rows = [\<lparr>id_col = 1, status_col = ''backlog'', priority_col = Finite 1, other_cols = ()\<rparr>,
              \<lparr>id_col = 2, status_col = ''complete'', priority_col = Finite 9, other_cols = ()\<rparr>],
      faults = []\<rparr> ''2'' \<lparr>status = None, priority = Some (JStr ''9'')\<rparr>)) =
     [\<lparr>id_col = 1, status_col = ''backlog'', priority_col = Finite 1, other_cols = ()\<rparr>,
      \<lparr>id_col = 2, status_col = ''complete'', priority_col = Finite 9, other_cols = ()\<rparr>] \<and>
   fst (put_client
     \<lparr>rows = [\<lparr>id_col = 1, status_col = ''backlog'', priority_col = Finite 1, other_cols = ()\<rparr>,
              \<lparr>id_col = 2, status_col = ''complete'', priority_col = Finite 9, other_cols = ()\<rparr>],
      faults = []\<rparr> ''2'' \<lparr>status = None, priority = Some (JStr ''9'')\<rparr>) =
     Send 200 (Rows
        [\<lparr>id_col = 1, status_col = ''backlog'', priority_col = Finite 1, other_cols = ()\<rparr>,
         \<lparr>id_col = 2, status_col = ''complete'', priority_col = Finite 9, other_cols = ()\<rparr>])"
proof -
  have cs: "calls_succeed 4
     \<lparr>rows = [\<lparr>id_col = 1, status_col = ''backlog'', priority_col = Finite 1, other_cols = ()\<rparr>,
              \<lparr>id_col = 2, status_col = ''complete'', priority_col = Finite 9, other_cols = ()\<rparr>],
      faults = []\<rparr>"
    by (simp add: calls_succeed_def)
  from put_twice [OF put_sample_priority] cs put_sample_priority show ?thesis
    by simp
qed


section \<open>The branch for a client that is not found\<close>

lemma put_found_not_404: "fst (put_found d i b) \<noteq> Send 404 bd"
  by (auto simp: put_found_def db_run_update_def db_all_def db_call_def
      split: sum.splits option.splits if_splits)

lemma validateId_Valid_found:
  assumes "validateId d i = (Valid, d1)"
  shows "rows d1 = rows d \<and> (\<exists>c. find (\<lambda>c. Finite (id_col c) = i) (rows d) = Some c)"
  using assms
  by (auto simp: validateId_def db_get_by_id_def db_call_def split: if_splits option.splits)

lemma put_validated_not_404:
  assumes "find (\<lambda>c. Finite (id_col c) = i) (rows d) = Some c"
  shows "fst (put_validated d i b) \<noteq> Send 404 bd"
proof (cases "next_fault d")
  case None
  with assms have "put_validated d i b = put_found (d\<lparr>faults := tl (faults d)\<rparr>) i b"
    by (simp add: put_validated_def db_all_def db_call_def)
  then show ?thesis by (simp add: put_found_not_404)
next
  case (Some msg)
  then show ?thesis by (simp add: put_validated_def db_all_def db_call_def)
qed

lemma put_client_not_404: "fst (put_client d raw b) \<noteq> Send 404 bd"
proof (cases "validateId d (parseInt raw 10)")
  case (Pair v d1)
  show ?thesis
  proof (cases v)
    case (Invalid m)
    with Pair show ?thesis by (simp add: put_client_def)
  next
    case Valid
    with Pair have v: "validateId d (parseInt raw 10) = (Valid, d1)" by simp
    from validateId_Valid_found [OF v] obtain c where
      "find (\<lambda>c. Finite (id_col c) = parseInt raw 10) (rows d1) = Some c" by auto
    from put_validated_not_404 [OF this] v show ?thesis by (simp add: put_client_def)
  qed
qed

lemma put_client_no_match_rows:
  assumes "parseInt raw 10 \<noteq> NaN"
    and "\<forall>c \<in> set (rows d). Finite (id_col c) \<noteq> parseInt raw 10"
  shows "rows (snd (put_client d raw b)) = rows d"
  using put_client_cases [of d raw b] put_client_no_match [OF assms, of b]
  by auto

text \<open>
  C10. When the identifier validator has accepted the id and the table that the update
  handler then reads is the table the validator saw, the handler does not answer 404,
  whatever the driver does. Handled in one piece, an update request is never answered 404:
  an id that is a number and names no row is answered by the validator with 400, the body
  being \<^verbatim>\<open>Invalid id provided.\<close> / \<^verbatim>\<open>Cannot find client with that id.\<close> when its lookup
  succeeds (and \<^verbatim>\<open>DB error.\<close> when the lookup itself fails), and nothing is written.
\<close>

theorem not_found_unreachable:
  "(validateId d i = (Valid, d1) \<and> rows d2 = rows d1 \<longrightarrow>
      (\<forall>bd. fst (put_validated d2 i b) \<noteq> Send 404 bd)) \<and>
   (\<forall>bd. fst (put_client d raw b) \<noteq> Send 404 bd) \<and>
   (parseInt raw 10 \<noteq> NaN \<and> (\<forall>c \<in> set (rows d). Finite (id_col c) \<noteq> parseInt raw 10) \<longrightarrow>
      fst (put_client d raw b) =
        Send 400 (Message
          (case next_fault d of None \<Rightarrow> id_not_found | Some msg \<Rightarrow> db_error msg)) \<and>
      rows (snd (put_client d raw b)) = rows d)"
proof (intro conjI impI allI)
  fix bd
  assume "validateId d i = (Valid, d1) \<and> rows d2 = rows d1"
  then have v: "validateId d i = (Valid, d1)" and r: "rows d2 = rows d1" by simp_all
  from validateId_Valid_found [OF v] r obtain c where
    "find (\<lambda>c. Finite (id_col c) = i) (rows d2) = Some c" by auto
  then show "fst (put_validated d2 i b) \<noteq> Send 404 bd" by (rule put_validated_not_404)
next
  fix bd
  show "fst (put_client d raw b) \<noteq> Send 404 bd" by (rule put_client_not_404)
next
  assume "parseInt raw 10 \<noteq> NaN \<and>
    (\<forall>c \<in> set (rows d). Finite (id_col c) \<noteq> parseInt raw 10)"
  then show "fst (put_client d raw b) =
        Send 400 (Message
          (case next_fault d of None \<Rightarrow> id_not_found | Some msg \<Rightarrow> db_error msg))"
    by (simp add: put_client_no_match)
next
  assume "parseInt raw 10 \<noteq> NaN \<and>
    (\<forall>c \<in> set (rows d). Finite (id_col c) \<noteq> parseInt raw 10)"
  then show "rows (snd (put_client d raw b)) = rows d"
    by (simp add: put_client_no_match_rows)
qed

lemma validateId_sample_1: "validateId sample_db (Finite 1) = (Valid, sample_db)"
  by code_simp

lemma parseInt_7: "parseInt ''7'' 10 = Finite 7"
  by (simp add: parseInt_def is_white_space_def is_radix_digit_def digit_value_def radix_value_def
      to_double_def round_to_double_def)

theorem not_found_unreachable_witness:
  "validateId sample_db (Finite 1) = (Valid, sample_db) \<and>
   rows (sample_db\<lparr>faults := [None, Some ''disk'']\<rparr>) = rows sample_db \<and>
   fst (put_validated (sample_db\<lparr>faults := [None, Some ''disk'']\<rparr>) (Finite 1)
      \<lparr>status = None, priority = Some (JStr ''3'')\<rparr>) \<noteq> Send 404 (Message client_not_found) \<and>
   parseInt ''7'' 10 = Finite 7 \<and> 7 \<notin> set (map id_col (rows sample_db)) \<and>
   fst (put_client sample_db ''7'' \<lparr>status = None, priority = Some (JStr ''3'')\<rparr>) =
     Send 400 (Message id_not_found) \<and>
   rows (snd (put_client sample_db ''7'' \<lparr>status = None, priority = Some (JStr ''3'')\<rparr>)) =
     rows sample_db"
proof -
  have r: "rows (sample_db\<lparr>faults := [None, Some ''disk'']\<rparr>) = rows sample_db"
    by simp
  have m: "7 \<notin> set (map id_col (rows sample_db))"
    by (simp add: sample_db_def)
  have m': "parseInt ''7'' 10 \<noteq> NaN \<and>
      (\<forall>c \<in> set (rows sample_db). Finite (id_col c) \<noteq> parseInt ''7'' 10)"
    by (simp add: parseInt_7 sample_db_def)
  have f: "next_fault sample_db = None"
    by (simp add: next_fault_def sample_db_def)
  note t = not_found_unreachable [of sample_db "Finite 1" sample_db
      "sample_db\<lparr>faults := [None, Some ''disk'']\<rparr>"
      "\<lparr>status = None, priority = Some (JStr ''3'')\<rparr>" "''7''"]
  from t validateId_sample_1 r
  have a: "fst (put_validated (sample_db\<lparr>faults := [None, Some ''disk'']\<rparr>) (Finite 1)
      \<lparr>status = None, priority = Some (JStr ''3'')\<rparr>) \<noteq> Send 404 (Message client_not_found)"
    by blast
  from t m'
  have "fst (put_client sample_db ''7'' \<lparr>status = None, priority = Some (JStr ''3'')\<rparr>) =
     Send 400 (Message
       (case next_fault sample_db of None \<Rightarrow> id_not_found | Some msg \<Rightarrow> db_error msg))"
    and c: "rows (snd (put_client sample_db ''7''
      \<lparr>status = None, priority = Some (JStr ''3'')\<rparr>)) = rows sample_db"
    by blast+
  then have b: "fst (put_client sample_db ''7''
      \<lparr>status = None, priority = Some (JStr ''3'')\<rparr>) = Send 400 (Message id_not_found)"
    by (simp add: f)
  from validateId_sample_1 r a parseInt_7 m b c show ?thesis by blast
qed

text \<open>
  The condition on the table is needed: were client 1 deleted between the validator's
  lookup and the handler's read, the handler would answer 404.
\<close>

lemma not_found_when_store_changed:
  "validateId sample_db (Finite 1) = (Valid, sample_db) \<and>
   put_validated (sample_db\<lparr>rows := []\<rparr>) (Finite 1) \<lparr>status = None, priority = Some (JStr ''3'')\<rparr> =
     (Send 404 (Message \<lparr>message = ''Client not found.'', long_message = None\<rparr>),
      sample_db\<lparr>rows := []\<rparr>)"
proof -
  have "put_validated (sample_db\<lparr>rows := []\<rparr>) (Finite 1)
      \<lparr>status = None, priority = Some (JStr ''3'')\<rparr> =
     (Send 404 (Message \<lparr>message = ''Client not found.'', long_message = None\<rparr>),
      sample_db\<lparr>rows := []\<rparr>)"
    by code_simp
  with validateId_sample_1 show ?thesis by blast
qed

text \<open>
  An id above \<open>2 ^ 53\<close> is read as the nearest double: \<^verbatim>\<open>9007199254740993\<close> names the row
  whose id is \<open>9007199254740992\<close>, and the update writes to it.
\<close>

lemma rounded_id_names_row:
  "put_client
     \<lparr>rows = [\<lparr>id_col = 9007199254740992, status_col = ''backlog'', priority_col = Finite 1,
                other_cols = ()\<rparr>],
      faults = []\<rparr>
     ''9007199254740993'' \<lparr>status = Some (JStr ''complete''), priority = None\<rparr> =
   (Send 200 (Rows
      [\<lparr>id_col = 9007199254740992, status_col = ''complete'', priority_col = Finite 1,
         other_cols = ()\<rparr>]),
    \<lparr>rows = [\<lparr>id_col = 9007199254740992, status_col = ''complete'', priority_col = Finite 1,
               other_cols = ()\<rparr>],
     faults = []\<rparr>)"
  by code_simp


section \<open>Error bodies\<close>

lemma validateId_body:
  "fst (validateId d i) = Invalid m \<Longrightarrow> long_message m \<noteq> None"
  by (auto simp: validateId_def db_get_by_id_def db_call_def id_not_integer_def id_not_found_def
      db_error_def split: if_splits option.splits)

lemma put_found_body:
  "fst (put_found d i b) = Send c (Message m) \<Longrightarrow> long_message m \<noteq> None \<or> m = no_valid_fields"
  by (auto simp: put_found_def put_status_def put_priority_def validatePriority_def
      invalid_status_def invalid_priority_def db_run_update_def db_all_def db_call_def
      split: sum.splits option.splits if_splits)

text \<open>
  Every error body the three handlers send carries \<^verbatim>\<open>message\<close> and \<^verbatim>\<open>long_message\<close>, but
  for \<^verbatim>\<open>No valid fields to update.\<close> of the update handler (and \<^verbatim>\<open>Client not found.\<close> of
  its branch that is not reached).
\<close>

lemma get_clients_body:
  "fst (get_clients d st) = Send c (Message m) \<Longrightarrow> long_message m \<noteq> None"
  by (auto simp: get_clients_def invalid_status_list_def db_error_def db_all_def
      db_all_by_status_def db_call_def split: if_splits option.splits)

lemma get_client_body:
  assumes "fst (get_client d raw) = Send c (Message m)"
  shows "long_message m \<noteq> None"
proof (cases "validateId d (parseInt raw 10)")
  case (Pair v d1)
  show ?thesis
  proof (cases v)
    case (Invalid m')
    with Pair assms validateId_body [of d "parseInt raw 10" m'] show ?thesis
      by (simp add: get_client_def)
  next
    case Valid
    with Pair assms show ?thesis
      by (auto simp: get_client_def db_get_by_id_def db_call_def db_error_def
          split: option.splits)
  qed
qed

lemma put_client_body:
  assumes "fst (put_client d raw b) = Send c (Message m)"
  shows "long_message m \<noteq> None \<or> m = no_valid_fields"
proof (cases "validateId d (parseInt raw 10)")
  case (Pair v d1)
  show ?thesis
  proof (cases v)
    case (Invalid m')
    with Pair assms validateId_body [of d "parseInt raw 10" m'] show ?thesis
      by (simp add: put_client_def)
  next
    case Valid
    with Pair have v: "validateId d (parseInt raw 10) = (Valid, d1)" by simp
    then have pc: "put_client d raw b = put_validated d1 (parseInt raw 10) b"
      by (simp add: put_client_def)
    from validateId_Valid_found [OF v] obtain cl where
      f: "find (\<lambda>c. Finite (id_col c) = parseInt raw 10) (rows d1) = Some cl" by auto
    show ?thesis
    proof (cases "next_fault d1")
      case None
      with f have "put_validated d1 (parseInt raw 10) b =
          put_found (d1\<lparr>faults := tl (faults d1)\<rparr>) (parseInt raw 10) b"
        by (simp add: put_validated_def db_all_def db_call_def)
      with pc assms have "fst (put_found (d1\<lparr>faults := tl (faults d1)\<rparr>) (parseInt raw 10) b) =
          Send c (Message m)"
        by simp
      then show ?thesis by (rule put_found_body)
    next
      case (Some msg)
      with pc assms show ?thesis
        by (auto simp: put_validated_def db_all_def db_call_def db_error_def)
    qed
  qed
qed

text \<open>
  C7. The update request with an empty body on client 1 is rejected with the body
  \<^verbatim>\<open>{message: 'No valid fields to update.'}\<close>: it has no \<^verbatim>\<open>long_message\<close>.
\<close>

theorem no_fields_body_lacks_long_message:
  "put_client sample_db ''1'' \<lparr>status = None, priority = None\<rparr> =
     (Send 400 (Message \<lparr>message = ''No valid fields to update.'', long_message = None\<rparr>),
      sample_db)"
  by code_simp

end
